theory Spec2Isabelle
  imports Main "HOL-Library.Word" "HOL-Library.Multiset" "HOL-Library.Product_Lexorder"
    "HOL-Library.Code_Target_Numeral"
begin

section \<open>The roles table (pgdb, organization roles)\<close>

text \<open>
  A UUID is sixteen bytes; PostgreSQL orders the type bytewise, which is the order of the
  128-bit number. Instants (\<open>now()\<close>, \<open>created_at\<close>, \<open>updated_at\<close>) are points on a
  discrete clock.
\<close>

type_synonym uuid = "128 word"

type_synonym time = nat

text \<open>
  \<open>InsertRoleParams\<close> and \<open>OrganizationRole\<close> share the fields organization, head, rank,
  name, description and color; a stored role adds its id and the two timestamps.
  The Go field \<open>Rank\<close> is a \<open>uint\<close> and the column is \<open>INT CHECK (rank >= 0)\<close>: ranks are
  natural numbers here, and the statements below reject what the column cannot hold.
\<close>

record InsertRoleParams =
  OrganizationID :: uuid
  Head :: bool
  Rank :: nat
  Name :: string
  Description :: string
  Color :: string

record OrganizationRole = InsertRoleParams +
  ID :: uuid
  CreatedAt :: time
  UpdatedAt :: time

definition OrganizationRoleTable :: string where
  "OrganizationRoleTable = ''organization_roles''"

text \<open>The value of \<open>OrganizationRole{}\<close>.\<close>

definition zero_role :: OrganizationRole where
  "zero_role = \<lparr>OrganizationID = 0, Head = False, Rank = 0, Name = [], Description = [],
     Color = [], ID = 0, CreatedAt = 0, UpdatedAt = 0\<rparr>"

text \<open>
  Errors: the store's (a relation or a column that does not exist, a violated constraint, an exception
  raised by a trigger, a value the column type cannot hold), \<open>sql.ErrNoRows\<close>, the
  validation errors of \<open>UpdateRolesRanks\<close>, and the runtime panics of its loops.
\<close>

datatype error =
    UndefinedTable string
  | UndefinedColumn string
  | ForeignKeyViolation string
  | UniqueViolation string
  | CheckViolation string
  | RaiseException string
  | NumericValueOutOfRange
  | ErrNoRows
  | NoRolesInOrganization uuid
  | RankOutOfRange nat nat
  | RoleNotInOrganization uuid uuid
  | DuplicateRank nat uuid uuid
  | MakesliceCapOutOfRange
  | IndexOutOfRange

text \<open>
  The columns of \<open>organization_roles\<close>. \<open>CREATE TABLE organization_roles\<close> in
  \<open>pgdb/schemas/organizations.sql\<close> declares eight columns; the constant
  \<open>OrganizationRoleColumns\<close> of the Go package names nine, the ninth being \<open>description\<close>,
  which the schema does not declare.
\<close>

definition schema_columns :: "string list" where
  "schema_columns =
     [''id'', ''organization_id'', ''head'', ''rank'', ''name'', ''color'', ''created_at'',
      ''updated_at'']"

definition OrganizationRoleColumns :: "string list" where
  "OrganizationRoleColumns =
     [''id'', ''organization_id'', ''head'', ''rank'', ''name'', ''description'', ''color'',
      ''created_at'', ''updated_at'']"

text \<open>
  The part of the database the rank operations touch: the ids of the rows of
  \<open>organizations\<close> (the target of the roles' foreign key), the rows of
  \<open>organization_roles\<close>, and the columns that table has beyond those the schema declares
  (\<open>added_columns\<close>: none on the table as the schema creates it). A row is held as an
  \<open>OrganizationRole\<close>; on a table without the column \<open>description\<close> that field of the
  row is not read by any statement that succeeds.
\<close>

record database =
  organizations :: "uuid list"
  added_columns :: "string list"
  organization_roles :: "OrganizationRole list"

definition columns :: "database \<Rightarrow> string list" where
  "columns d = schema_columns @ added_columns d"

text \<open>
  A statement names the relation it reads or writes. The schema
  (\<open>pgdb/schemas/organizations.sql\<close>) creates the roles under the name
  \<open>organization_roles\<close>, the value of \<open>OrganizationRoleTable\<close>; no other relation holds
  role rows.
\<close>

definition relation :: "database \<Rightarrow> string \<Rightarrow> OrganizationRole list option" where
  "relation d name =
     (if name = OrganizationRoleTable then Some (organization_roles d) else None)"

text \<open>
  A statement that names a column the table does not have fails (undefined column) and
  changes nothing: the first such column among those the statement names, if any.
\<close>

definition undefined_column :: "database \<Rightarrow> string list \<Rightarrow> string option" where
  "undefined_column d cols = find (\<lambda>c. c \<notin> set (columns d)) cols"

definition int4_max :: nat where
  "int4_max = 2147483647"

subsection \<open>Insert\<close>

text \<open>
  \<open>sqlInsertAtRank\<close>: the rows of the organization with \<open>rank >= $2\<close> get \<open>rank + 1\<close> and
  \<open>updated_at = now()\<close>, and the new row is inserted with rank \<open>$2\<close>, in one statement.
  \<open>newID\<close> is the value the column default \<open>uuid_generate_v4()\<close> produces and \<open>now\<close> the
  value of \<open>now()\<close>. The statement fails, changing nothing, when a value leaves the
  range of \<open>INT\<close>, when the organization does not exist (foreign key), when the id is
  taken (primary key), when the organization has a role of that name
  (\<open>UNIQUE (organization_id, name)\<close>) or when it would get a second head role
  (\<open>roles_one_head_per_organization\<close>). The statement names the columns \<open>rank\<close>,
  \<open>updated_at\<close>, \<open>organization_id\<close>, \<open>head\<close>, \<open>name\<close>, \<open>description\<close>, \<open>color\<close>, \<open>id\<close>
  and \<open>created_at\<close>. The function itself checks nothing.
\<close>

definition bump :: "time \<Rightarrow> uuid \<Rightarrow> nat \<Rightarrow> OrganizationRole \<Rightarrow> OrganizationRole" where
  "bump now org rk r =
     (if OrganizationID r = org \<and> rk \<le> Rank r
      then r\<lparr>Rank := Rank r + 1, UpdatedAt := now\<rparr> else r)"

definition Insert ::
  "uuid \<Rightarrow> time \<Rightarrow> InsertRoleParams \<Rightarrow> database \<Rightarrow> (error + OrganizationRole) \<times> database" where
  "Insert newID now data d =
     (case relation d ''organization_roles'' of
        None \<Rightarrow> (Inl (UndefinedTable ''organization_roles''), d)
      | Some rows \<Rightarrow>
        (case undefined_column d [''rank'', ''updated_at'', ''organization_id'', ''head'', ''name'',
                 ''description'', ''color'', ''id'', ''created_at''] of
           Some c \<Rightarrow> (Inl (UndefinedColumn c), d)
         | None \<Rightarrow>
          let org = OrganizationID data;
              bumped = map (bump now org (Rank data)) rows;
              inserted = \<lparr>OrganizationID = org, Head = Head data, Rank = Rank data,
                 Name = Name data, Description = Description data, Color = Color data,
                 ID = newID, CreatedAt = now, UpdatedAt = now\<rparr>
          in if int4_max < Rank data
                \<or> (\<exists>r \<in> set rows. OrganizationID r = org \<and> Rank data \<le> Rank r
                       \<and> int4_max < Rank r + 1)
             then (Inl NumericValueOutOfRange, d)
             else if org \<notin> set (organizations d)
             then (Inl (ForeignKeyViolation ''organization_id''), d)
             else if newID \<in> set (map ID rows)
             then (Inl (UniqueViolation ''id''), d)
             else if \<exists>r \<in> set rows. OrganizationID r = org \<and> Name r = Name data
             then (Inl (UniqueViolation ''organization_id, name''), d)
             else if Head data \<and> (\<exists>r \<in> set rows. OrganizationID r = org \<and> Head r)
             then (Inl (UniqueViolation ''roles_one_head_per_organization''), d)
             else (Inr inserted, d\<lparr>organization_roles := bumped @ [inserted]\<rparr>)))"

subsection \<open>Get and Select\<close>

text \<open>
  \<open>NewOrgRolesQ(db).FilterByID(id).Get(ctx)\<close>: the row with that id, and the zero role with
  a nil error when there is none (\<open>sql.ErrNoRows\<close> is swallowed). The selector reads
  the columns of \<open>OrganizationRoleColumnsR\<close>.
\<close>

definition FilterByID_Get :: "uuid \<Rightarrow> database \<Rightarrow> error + OrganizationRole" where
  "FilterByID_Get roleID d =
     (case relation d OrganizationRoleTable of
        None \<Rightarrow> Inl (UndefinedTable OrganizationRoleTable)
      | Some rows \<Rightarrow>
          (case undefined_column d OrganizationRoleColumns of
             Some c \<Rightarrow> Inl (UndefinedColumn c)
           | None \<Rightarrow>
               (case find (\<lambda>r. ID r = roleID) rows of None \<Rightarrow> Inr zero_role | Some r \<Rightarrow> Inr r)))"

text \<open>
  \<open>NewOrgRolesQ(db).FilterByOrganizationID(org).OrderByRoleRank(true).Select(ctx)\<close>: the
  organization's rows, \<open>ORDER BY r.rank ASC, r.id ASC\<close>.
\<close>

definition FilterByOrganizationID_OrderByRoleRank_Select ::
  "uuid \<Rightarrow> database \<Rightarrow> error + OrganizationRole list" where
  "FilterByOrganizationID_OrderByRoleRank_Select org d =
     (case relation d OrganizationRoleTable of
        None \<Rightarrow> Inl (UndefinedTable OrganizationRoleTable)
      | Some rows \<Rightarrow>
          (case undefined_column d OrganizationRoleColumns of
             Some c \<Rightarrow> Inl (UndefinedColumn c)
           | None \<Rightarrow>
               Inr (sort_key (\<lambda>r. (Rank r, ID r)) (filter (\<lambda>r. OrganizationID r = org) rows))))"

subsection \<open>DeleteAndShiftRanks\<close>

text \<open>
  One statement deletes the row with the id and decrements the rank of the rows of the
  same organization above it. The trigger \<open>trg_roles_prevent_delete_head\<close> raises an
  exception when the row is a head role, and the statement then changes nothing. With no
  row of that id the statement succeeds and changes nothing. The statement names the
  columns \<open>id\<close>, \<open>organization_id\<close>, \<open>rank\<close> and \<open>updated_at\<close>.
\<close>

definition shift_down :: "time \<Rightarrow> OrganizationRole \<Rightarrow> OrganizationRole \<Rightarrow> OrganizationRole" where
  "shift_down now del r =
     (if OrganizationID r = OrganizationID del \<and> Rank del < Rank r
      then r\<lparr>Rank := Rank r - 1, UpdatedAt := now\<rparr> else r)"

definition DeleteAndShiftRanks :: "time \<Rightarrow> uuid \<Rightarrow> database \<Rightarrow> error option \<times> database" where
  "DeleteAndShiftRanks now roleID d =
     (case relation d ''organization_roles'' of
        None \<Rightarrow> (Some (UndefinedTable ''organization_roles''), d)
      | Some rows \<Rightarrow>
        (case undefined_column d [''id'', ''organization_id'', ''rank'', ''updated_at''] of
           Some c \<Rightarrow> (Some (UndefinedColumn c), d)
         | None \<Rightarrow>
          (case find (\<lambda>r. ID r = roleID) rows of
             None \<Rightarrow> (None, d)
           | Some del \<Rightarrow>
               if Head del then (Some (RaiseException ''cannot delete head role''), d)
               else (None, d\<lparr>organization_roles :=
                       map (shift_down now del) (filter (\<lambda>r. ID r \<noteq> roleID) rows)\<rparr>))))"

subsection \<open>UpdateRoleRank\<close>

text \<open>
  \<open>sqlGet\<close> reads the organization and the rank of the role from the relation \<open>roles\<close>.
  Go converts the \<open>uint\<close> argument with \<open>int(newRank)\<close>: the 64 bits read as a signed
  number.
\<close>

definition sqlGet :: "uuid \<Rightarrow> database \<Rightarrow> error + (uuid \<times> int)" where
  "sqlGet roleID d =
     (case relation d ''roles'' of
        None \<Rightarrow> Inl (UndefinedTable ''roles'')
      | Some rows \<Rightarrow>
          (case find (\<lambda>r. ID r = roleID) rows of
             None \<Rightarrow> Inl ErrNoRows
           | Some r \<Rightarrow> Inr (OrganizationID r, int (Rank r))))"

definition int_of_uint :: "nat \<Rightarrow> int" where
  "int_of_uint n = sint (word_of_nat n :: 64 word)"

text \<open>
  \<open>sqlMove\<close>: one \<open>UPDATE\<close> over the rows of organization \<open>$4\<close> with the \<open>CASE\<close> of the
  source (\<open>$1\<close> the role, \<open>$2\<close> the new rank, \<open>$3\<close> the old rank), returning the moved row;
  no returned row is \<open>sql.ErrNoRows\<close> at the scan, after the update. A new rank outside
  \<open>INT\<close> or below zero (\<open>CHECK (rank >= 0)\<close>) fails the statement.
\<close>

definition move_rank :: "uuid \<Rightarrow> int \<Rightarrow> int \<Rightarrow> OrganizationRole \<Rightarrow> int" where
  "move_rank roleID new old r =
     (if ID r = roleID then new
      else if new < old \<and> int (Rank r) \<ge> new \<and> int (Rank r) < old then int (Rank r) + 1
      else if new > old \<and> int (Rank r) \<le> new \<and> int (Rank r) > old then int (Rank r) - 1
      else int (Rank r))"

definition sqlMove ::
  "time \<Rightarrow> uuid \<Rightarrow> int \<Rightarrow> int \<Rightarrow> uuid \<Rightarrow> database \<Rightarrow> (error + OrganizationRole) \<times> database" where
  "sqlMove now roleID new old aggID d =
     (case relation d ''organization_roles'' of
        None \<Rightarrow> (Inl (UndefinedTable ''organization_roles''), d)
      | Some rows \<Rightarrow>
        (case undefined_column d [''rank'', ''id'', ''updated_at'', ''organization_id'', ''head'',
                 ''name'', ''description'', ''color'', ''created_at''] of
           Some c \<Rightarrow> (Inl (UndefinedColumn c), d)
         | None \<Rightarrow>
          let upd = (\<lambda>r. if OrganizationID r = aggID
                         then r\<lparr>Rank := nat (move_rank roleID new old r), UpdatedAt := now\<rparr>
                         else r);
              rows' = map upd rows
          in if new < - 2147483648 \<or> int int4_max < new
                \<or> (\<exists>r \<in> set rows. OrganizationID r = aggID \<and> int int4_max < move_rank roleID new old r)
             then (Inl NumericValueOutOfRange, d)
             else if \<exists>r \<in> set rows. OrganizationID r = aggID \<and> move_rank roleID new old r < 0
             then (Inl (CheckViolation ''rank''), d)
             else (case find (\<lambda>r. ID r = roleID) (filter (\<lambda>r. OrganizationID r = aggID) rows') of
                     None \<Rightarrow> (Inl ErrNoRows, d\<lparr>organization_roles := rows'\<rparr>)
                   | Some r \<Rightarrow> (Inr r, d\<lparr>organization_roles := rows'\<rparr>))))"

definition UpdateRoleRank ::
  "time \<Rightarrow> uuid \<Rightarrow> nat \<Rightarrow> database \<Rightarrow> (error + OrganizationRole) \<times> database" where
  "UpdateRoleRank now roleID newRank d =
     (case sqlGet roleID d of
        Inl e \<Rightarrow> (Inl e, d)
      | Inr (aggID, oldRank) \<Rightarrow>
          if oldRank = int_of_uint newRank then (FilterByID_Get roleID d, d)
          else sqlMove now roleID (int_of_uint newRank) oldRank aggID d)"

subsection \<open>UpdateRolesRanks\<close>

text \<open>
  The Go map \<open>order\<close> is given as the sequence of its entries in the order the \<open>range\<close>
  loop visits them (Go leaves that order open): a list of pairs with distinct keys.
  \<open>idToRole\<close> maps each selected role's id to the role.
\<close>

definition idToRole :: "OrganizationRole list \<Rightarrow> (uuid \<rightharpoonup> OrganizationRole)" where
  "idToRole roles = fold (\<lambda>r m. m(ID r \<mapsto> r)) roles Map.empty"

text \<open>
  The validation loop: for each entry the rank must be below \<open>n\<close>, the role must be one
  of the organization's, and the rank must not be taken by another role; the first entry
  that fails decides the error.
\<close>

fun validate ::
  "OrganizationRole list \<Rightarrow> uuid \<Rightarrow> (uuid \<times> nat) list \<Rightarrow> (nat \<rightharpoonup> uuid) \<Rightarrow> error + (nat \<rightharpoonup> uuid)" where
  "validate roles organizationID [] usedRank = Inr usedRank"
| "validate roles organizationID ((roleID, newRank) # order) usedRank =
     (if newRank \<ge> length roles then Inl (RankOutOfRange newRank (length roles - 1))
      else if idToRole roles roleID = None then Inl (RoleNotInOrganization roleID organizationID)
      else (case usedRank newRank of
              Some prev \<Rightarrow>
                if prev \<noteq> roleID then Inl (DuplicateRank newRank prev roleID)
                else validate roles organizationID order (usedRank(newRank \<mapsto> roleID))
            | None \<Rightarrow> validate roles organizationID order (usedRank(newRank \<mapsto> roleID))))"

text \<open>
  \<open>target\<close> and \<open>filled\<close> after the loop over \<open>usedRank\<close>, as one list of pairs: every key
  of \<open>usedRank\<close> is below \<open>n\<close> and the loop writes each key's own index, so the order in
  which the map is visited does not matter. An index that is not a key keeps the zero
  UUID and \<open>false\<close>.
\<close>

definition placed :: "nat \<Rightarrow> (nat \<rightharpoonup> uuid) \<Rightarrow> (bool \<times> uuid) list" where
  "placed n usedRank =
     map (\<lambda>r. case usedRank r of Some roleID \<Rightarrow> (True, roleID) | None \<Rightarrow> (False, 0)) [0..<n]"

text \<open>\<open>rest\<close>: the ids of the selected roles that are not keys of \<open>order\<close>, in their order.\<close>

definition rest_of :: "OrganizationRole list \<Rightarrow> (uuid \<times> nat) list \<Rightarrow> uuid list" where
  "rest_of roles order = filter (\<lambda>roleID. map_of order roleID = None) (map ID roles)"

text \<open>
  The fill loop, from index \<open>i\<close> on with the counter \<open>j\<close>: a filled index keeps its id,
  any other takes \<open>rest[j]\<close>, and reading \<open>rest\<close> past its end panics.
\<close>

fun fill :: "uuid list \<Rightarrow> nat \<Rightarrow> (bool \<times> uuid) list \<Rightarrow> error + uuid list" where
  "fill rest j [] = Inr []"
| "fill rest j ((filled, roleID) # ps) =
     (if filled
      then (case fill rest j ps of Inl e \<Rightarrow> Inl e | Inr target \<Rightarrow> Inr (roleID # target))
      else if j < length rest
      then (case fill rest (Suc j) ps of Inl e \<Rightarrow> Inl e | Inr target \<Rightarrow> Inr (rest ! j # target))
      else Inl IndexOutOfRange)"

text \<open>
  \<open>changed\<close> and \<open>newRanks\<close>, as one list of pairs: the indices of \<open>target\<close> whose id is not
  the id of the role selected at that index.
\<close>

definition changed_ranks :: "OrganizationRole list \<Rightarrow> uuid list \<Rightarrow> (uuid \<times> nat) list" where
  "changed_ranks roles target =
     map (\<lambda>(newRank, roleID). (roleID, newRank))
       (filter (\<lambda>(newRank, roleID). ID (roles ! newRank) \<noteq> roleID) (enumerate 0 target))"

text \<open>
  \<open>sqlUpdate\<close>: every row of the organization whose id is among \<open>$1\<close> gets the rank beside
  it in \<open>$2\<close> and \<open>updated_at = now()\<close>; the statement returns the rows it wrote (here in
  the order of the table; SQL leaves the order open). It names the columns \<open>rank\<close>,
  \<open>updated_at\<close>, \<open>id\<close>, \<open>organization_id\<close>, \<open>head\<close>, \<open>name\<close>, \<open>description\<close>, \<open>color\<close> and
  \<open>created_at\<close>.
\<close>

definition rewrite :: "time \<Rightarrow> (uuid \<times> nat) list \<Rightarrow> uuid \<Rightarrow> OrganizationRole \<Rightarrow> OrganizationRole option" where
  "rewrite now v organizationID r =
     (case map_of v (ID r) of
        Some newRank \<Rightarrow>
          if OrganizationID r = organizationID
          then Some (r\<lparr>Rank := newRank, UpdatedAt := now\<rparr>) else None
      | None \<Rightarrow> None)"

definition sqlUpdate ::
  "time \<Rightarrow> (uuid \<times> nat) list \<Rightarrow> uuid \<Rightarrow> database \<Rightarrow> (error + OrganizationRole list) \<times> database" where
  "sqlUpdate now v organizationID d =
     (case relation d ''organization_roles'' of
        None \<Rightarrow> (Inl (UndefinedTable ''organization_roles''), d)
      | Some rows \<Rightarrow>
          (case undefined_column d [''rank'', ''updated_at'', ''id'', ''organization_id'', ''head'',
                   ''name'', ''description'', ''color'', ''created_at''] of
             Some c \<Rightarrow> (Inl (UndefinedColumn c), d)
           | None \<Rightarrow>
               (Inr (List.map_filter (rewrite now v organizationID) rows),
                d\<lparr>organization_roles :=
                    map (\<lambda>r. case rewrite now v organizationID r of Some r' \<Rightarrow> r' | None \<Rightarrow> r) rows\<rparr>)))"

text \<open>
  The first half of \<open>UpdateRolesRanks\<close>: validation, then \<open>target\<close>. \<open>make\<close> panics on
  the capacity \<open>n - len(order)\<close> when \<open>order\<close> has more entries than there are roles.
\<close>

definition target_permutation ::
  "OrganizationRole list \<Rightarrow> uuid \<Rightarrow> (uuid \<times> nat) list \<Rightarrow> error + uuid list" where
  "target_permutation roles organizationID order =
     (case validate roles organizationID order Map.empty of
        Inl e \<Rightarrow> Inl e
      | Inr usedRank \<Rightarrow>
          if length roles < length order then Inl MakesliceCapOutOfRange
          else fill (rest_of roles order) 0 (placed (length roles) usedRank))"

definition UpdateRolesRanks ::
  "time \<Rightarrow> uuid \<Rightarrow> (uuid \<times> nat) list \<Rightarrow> database \<Rightarrow> (error + OrganizationRole list) \<times> database" where
  "UpdateRolesRanks now organizationID order d =
     (case FilterByOrganizationID_OrderByRoleRank_Select organizationID d of
        Inl e \<Rightarrow> (Inl e, d)
      | Inr roles \<Rightarrow>
          if length roles = 0 then (Inl (NoRolesInOrganization organizationID), d)
          else (case target_permutation roles organizationID order of
                  Inl e \<Rightarrow> (Inl e, d)
                | Inr target \<Rightarrow>
                    let changed = changed_ranks roles target
                    in if length changed = 0 then (Inr roles, d)
                       else sqlUpdate now changed organizationID d))"

subsection \<open>The rank invariant and sequences of operations\<close>

text \<open>
  The roles of an organization, and the invariant of the data model: their ranks are
  exactly \<open>0, \<dots>, n - 1\<close>, each once.
\<close>

definition roles_of :: "database \<Rightarrow> uuid \<Rightarrow> OrganizationRole list" where
  "roles_of d org = filter (\<lambda>r. OrganizationID r = org) (organization_roles d)"

definition dense_ranks :: "database \<Rightarrow> uuid \<Rightarrow> bool" where
  "dense_ranks d org \<longleftrightarrow>
     mset (map Rank (roles_of d org)) = mset [0..<length (roles_of d org)]"

text \<open>
  A partial assignment that passes the validation of \<open>UpdateRolesRanks\<close>: every rank is
  below the number of roles, every role is one of the organization's, and no rank is
  asked for twice (the keys of a map are distinct).
\<close>

definition valid_order :: "OrganizationRole list \<Rightarrow> (uuid \<times> nat) list \<Rightarrow> bool" where
  "valid_order roles order \<longleftrightarrow>
     distinct (map fst order) \<and> distinct (map snd order) \<and>
     list_all (\<lambda>(roleID, newRank). newRank < length roles \<and> roleID \<in> set (map ID roles)) order"

text \<open>The four rank operations as calls, and the database after a call and after a sequence.\<close>

datatype rank_op =
    InsertAtRank uuid time InsertRoleParams
  | MoveRank time uuid nat
  | DeleteShift time uuid
  | BulkReorder time uuid "(uuid \<times> nat) list"

fun apply_op :: "rank_op \<Rightarrow> database \<Rightarrow> database" where
  "apply_op (InsertAtRank newID now data) d = snd (Insert newID now data d)"
| "apply_op (MoveRank now roleID newRank) d = snd (UpdateRoleRank now roleID newRank d)"
| "apply_op (DeleteShift now roleID) d = snd (DeleteAndShiftRanks now roleID d)"
| "apply_op (BulkReorder now organizationID order) d = snd (UpdateRolesRanks now organizationID order d)"

fun apply_ops :: "rank_op list \<Rightarrow> database \<Rightarrow> database" where
  "apply_ops [] d = d"
| "apply_ops (c # cs) d = apply_ops cs (apply_op c d)"

text \<open>
  Every insert of the sequence asks, at the moment it runs, for a rank that is at most
  the number of roles its organization holds then.
\<close>

fun insert_in_range :: "rank_op \<Rightarrow> database \<Rightarrow> bool" where
  "insert_in_range (InsertAtRank newID now data) d =
     (Rank data \<le> length (roles_of d (OrganizationID data)))"
| "insert_in_range (MoveRank now roleID newRank) d = True"
| "insert_in_range (DeleteShift now roleID) d = True"
| "insert_in_range (BulkReorder now organizationID order) d = True"

fun inserts_in_range :: "rank_op list \<Rightarrow> database \<Rightarrow> bool" where
  "inserts_in_range [] d = True"
| "inserts_in_range (c # cs) d = (insert_in_range c d \<and> inserts_in_range cs (apply_op c d))"

section \<open>The profiles consumer (kafka consumers)\<close>

text \<open>
  A message of the broker, as far as the consumer reads it: the key, the payload and the
  headers (key and value).
\<close>

record Message =
  Key :: string
  Value :: string
  Headers :: "(string \<times> string) list"

definition ProfileUpdatedEvent :: string where
  "ProfileUpdatedEvent = ''profile.updated''"

text \<open>The event types of \<open>kafka/contracts\<close>.\<close>

definition contract_event_types :: "string list" where
  "contract_event_types =
     [''account.created'', ''account.username.change'', ''account.deleted'',
      ''member.created'', ''member.updated'', ''member.deleted'',
      ''member_role.added'', ''member_role.remove'', ProfileUpdatedEvent,
      ''invite.created'', ''invite.accepted'', ''invite.declined'', ''invite.deleted'',
      ''organization.created'', ''organization.updated'', ''organization.activated'',
      ''organization.deactivated'', ''organization.suspended'', ''organization.deleted'',
      ''role.created'', ''role.updated'', ''role.deleted'', ''roles.ranks.updated'',
      ''role.permissions.updated'']"

text \<open>
  The row of the inbox (\<open>box.InboxEvent\<close>), as far as the consumer reads it, and the
  \<open>Inbox\<close> interface over a store of type \<open>'s\<close>. \<open>Transaction\<close> runs a function on the
  store.
\<close>

record InboxEvent =
  EventID :: uuid
  EventKey :: string
  Status :: string

record 's Inbox =
  CreateInboxEvent :: "Message \<Rightarrow> 's \<Rightarrow> (error + InboxEvent) \<times> 's"
  UpdateInboxEventStatus :: "uuid \<Rightarrow> string \<Rightarrow> 's \<Rightarrow> (error + InboxEvent) \<times> 's"
  Transaction :: "('s \<Rightarrow> error option \<times> 's) \<Rightarrow> 's \<Rightarrow> error option \<times> 's"

text \<open>
  \<open>Profile.ProfileUpdated\<close>, over an inbox and a processor (the log calls are left out):
  in one transaction the event is recorded, and an error there is returned; then the
  processor runs and its status is written, and an error there is logged only, the
  function returning nil.
\<close>

definition ProfileUpdated ::
  "'s Inbox \<Rightarrow> (InboxEvent \<Rightarrow> 's \<Rightarrow> string \<times> 's) \<Rightarrow> Message \<Rightarrow> 's \<Rightarrow> error option \<times> 's" where
  "ProfileUpdated inbox processor event =
     Transaction inbox (\<lambda>s.
       case CreateInboxEvent inbox event s of
         (Inl err, s1) \<Rightarrow> (Some err, s1)
       | (Inr eventInBox, s1) \<Rightarrow>
           (case processor eventInBox s1 of
              (status, s2) \<Rightarrow>
                (case UpdateInboxEventStatus inbox (EventID eventInBox) status s2 of
                   (Inl err, s3) \<Rightarrow> (None, s3)
                 | (Inr updated, s3) \<Rightarrow> (None, s3))))"

text \<open>
  The function \<open>Profile.Run\<close> hands to \<open>Consume\<close>: it reads the header \<open>event_type\<close> and
  answers with the handler and \<open>true\<close> for \<open>profile.updated\<close>, with no handler and \<open>false\<close>
  otherwise. \<open>subscriber.Header\<close> belongs to the library and is a parameter: it answers
  with the value and whether the header is there.
\<close>

definition Run_handler ::
  "(Message \<Rightarrow> string \<Rightarrow> string \<times> bool) \<Rightarrow> 's Inbox \<Rightarrow> (InboxEvent \<Rightarrow> 's \<Rightarrow> string \<times> 's)
     \<Rightarrow> Message \<Rightarrow> (Message \<Rightarrow> 's \<Rightarrow> error option \<times> 's) option \<times> bool" where
  "Run_handler Header inbox processor m =
     (case Header m ''event_type'' of
        (et, ok) \<Rightarrow>
          if \<not> ok then (None, False)
          else if et = ProfileUpdatedEvent then (Some (ProfileUpdated inbox processor), True)
          else (None, False))"

text \<open>
  Modelled from the spec: \<open>subscriber.Consume\<close> of the library, for one message. A message
  with no handler is skipped: no error, and the store is as it was. Otherwise the handler
  runs.
\<close>

definition Consume_message ::
  "(Message \<Rightarrow> (Message \<Rightarrow> 's \<Rightarrow> error option \<times> 's) option \<times> bool) \<Rightarrow> Message \<Rightarrow> 's
     \<Rightarrow> error option \<times> 's" where
  "Consume_message resolve m s =
     (case resolve m of
        (Some handler, True) \<Rightarrow> handler m s
      | _ \<Rightarrow> (None, s))"

text \<open>
  The library's \<open>subscriber.Header\<close> as the lookup of the first header with the key.
\<close>

definition first_header :: "Message \<Rightarrow> string \<Rightarrow> string \<times> bool" where
  "first_header m k = (case map_of (Headers m) k of None \<Rightarrow> ([], False) | Some v \<Rightarrow> (v, True))"

text \<open>
  A store for the consumer: the rows of the inbox and the profiles the processor has
  written (account key and payload).
\<close>

record store =
  inbox_events :: "InboxEvent list"
  profiles :: "(string \<times> string) list"

text \<open>
  Modelled from the spec: the Inbox Gateway, whose code is in the library. \<open>RecordEvent\<close>
  derives the identity from the message (\<open>ident\<close>), returns the row of that identity when
  there is one, and inserts a \<open>pending\<close> row otherwise; \<open>UpdateStatus\<close> writes the status of
  the row and fails when there is no row; the transaction commits what the function did
  when it returns nil and rolls it back when it returns an error.
\<close>

definition RecordEvent :: "(Message \<Rightarrow> uuid) \<Rightarrow> Message \<Rightarrow> store \<Rightarrow> (error + InboxEvent) \<times> store" where
  "RecordEvent ident m s =
     (case find (\<lambda>e. EventID e = ident m) (inbox_events s) of
        Some e \<Rightarrow> (Inr e, s)
      | None \<Rightarrow>
          let e = \<lparr>EventID = ident m, EventKey = Key m, Status = ''pending''\<rparr>
          in (Inr e, s\<lparr>inbox_events := inbox_events s @ [e]\<rparr>))"

definition UpdateStatus :: "uuid \<Rightarrow> string \<Rightarrow> store \<Rightarrow> (error + InboxEvent) \<times> store" where
  "UpdateStatus eventID status s =
     (case find (\<lambda>e. EventID e = eventID) (inbox_events s) of
        None \<Rightarrow> (Inl ErrNoRows, s)
      | Some e \<Rightarrow>
          (Inr (e\<lparr>Status := status\<rparr>),
           s\<lparr>inbox_events := map (\<lambda>x. if EventID x = eventID then x\<lparr>Status := status\<rparr> else x) (inbox_events s)\<rparr>))"

definition run_transaction :: "('s \<Rightarrow> error option \<times> 's) \<Rightarrow> 's \<Rightarrow> error option \<times> 's" where
  "run_transaction fn s = (case fn s of (Some err, s') \<Rightarrow> (Some err, s) | (None, s') \<Rightarrow> (None, s'))"

definition gateway :: "(Message \<Rightarrow> uuid) \<Rightarrow> store Inbox" where
  "gateway ident = \<lparr>CreateInboxEvent = RecordEvent ident, UpdateInboxEventStatus = UpdateStatus,
     Transaction = run_transaction\<rparr>"

text \<open>
  An inbox whose status update fails without aborting the transaction (the call returns
  an error and has written nothing), and a processor that upserts the profile of the
  message and answers \<open>processed\<close>.
\<close>

definition gateway_update_fails :: "(Message \<Rightarrow> uuid) \<Rightarrow> store Inbox" where
  "gateway_update_fails ident =
     (gateway ident)\<lparr>UpdateInboxEventStatus := (\<lambda>eventID status s. (Inl ErrNoRows, s))\<rparr>"

definition upsert_profile :: "string \<Rightarrow> InboxEvent \<Rightarrow> store \<Rightarrow> string \<times> store" where
  "upsert_profile payload e s =
     (''processed'',
      s\<lparr>profiles := (EventKey e, payload) # filter (\<lambda>p. fst p \<noteq> EventKey e) (profiles s)\<rparr>)"

definition msg_profile :: Message where
  "msg_profile = \<lparr>Key = ''acc-1'', Value = ''p'', Headers = [(''event_type'', ''profile.updated'')]\<rparr>"

definition msg_unknown :: Message where
  "msg_unknown = \<lparr>Key = ''acc-1'', Value = ''p'', Headers = [(''event_type'', ''profile.renamed'')]\<rparr>"

definition empty_store :: store where
  "empty_store = \<lparr>inbox_events = [], profiles = []\<rparr>"

section \<open>Example data\<close>

definition role_A :: OrganizationRole where
  "role_A = \<lparr>OrganizationID = 1, Head = False, Rank = 0, Name = ''A'', Description = [],
     Color = [], ID = 10, CreatedAt = 0, UpdatedAt = 0\<rparr>"

definition role_B :: OrganizationRole where
  "role_B = \<lparr>OrganizationID = 1, Head = False, Rank = 1, Name = ''B'', Description = [],
     Color = [], ID = 11, CreatedAt = 0, UpdatedAt = 0\<rparr>"

definition role_C :: OrganizationRole where
  "role_C = \<lparr>OrganizationID = 1, Head = False, Rank = 2, Name = ''C'', Description = [],
     Color = [], ID = 12, CreatedAt = 0, UpdatedAt = 0\<rparr>"

definition role_D :: OrganizationRole where
  "role_D = \<lparr>OrganizationID = 1, Head = False, Rank = 3, Name = ''D'', Description = [],
     Color = [], ID = 13, CreatedAt = 0, UpdatedAt = 0\<rparr>"

definition role_H :: OrganizationRole where
  "role_H = \<lparr>OrganizationID = 2, Head = True, Rank = 0, Name = ''H'', Description = [],
     Color = [], ID = 20, CreatedAt = 0, UpdatedAt = 0\<rparr>"

text \<open>
  \<open>db_ABCD\<close>: the organization 1 with the roles A@0, B@1, C@2, D@3 and the organization 2
  with its head role, on a table that has the column \<open>description\<close>. \<open>db_schema\<close>: the
  same rows on the table as the schema creates it.
\<close>

definition db_ABCD :: database where
  "db_ABCD = \<lparr>organizations = [1, 2], added_columns = [''description''],
     organization_roles = [role_A, role_B, role_C, role_D, role_H]\<rparr>"

definition db_schema :: database where
  "db_schema = \<lparr>organizations = [1, 2], added_columns = [],
     organization_roles = [role_A, role_B, role_C, role_D, role_H]\<rparr>"

definition role_E :: InsertRoleParams where
  "role_E = \<lparr>OrganizationID = 1, Head = False, Rank = 7, Name = ''E'', Description = [], Color = []\<rparr>"

section \<open>Facts about the table\<close>

lemma relation_organization_roles: "relation d ''organization_roles'' = Some (organization_roles d)"
  by (simp add: relation_def OrganizationRoleTable_def)

lemma relation_OrganizationRoleTable: "relation d OrganizationRoleTable = Some (organization_roles d)"
  by (simp add: relation_def)

lemma relation_roles: "relation d ''roles'' = None"
  by (simp add: relation_def OrganizationRoleTable_def)

lemma undefined_column_None: "undefined_column d cols = None \<longleftrightarrow> set cols \<subseteq> set (columns d)"
  by (auto simp: undefined_column_def find_None_iff)

lemma undefined_column_schema: "set cols \<subseteq> set schema_columns \<Longrightarrow> undefined_column d cols = None"
  by (auto simp: undefined_column_None columns_def)

lemma columns_Delete: "undefined_column d [''id'', ''organization_id'', ''rank'', ''updated_at''] = None"
  by (rule undefined_column_schema) (simp add: schema_columns_def)

lemma columns_Insert:
  "undefined_column d [''rank'', ''updated_at'', ''organization_id'', ''head'', ''name'',
      ''description'', ''color'', ''id'', ''created_at'']
   = (if ''description'' \<in> set (added_columns d) then None else Some ''description'')"
  by (simp add: undefined_column_def columns_def schema_columns_def)

lemma columns_Select:
  "undefined_column d OrganizationRoleColumns
   = (if ''description'' \<in> set (added_columns d) then None else Some ''description'')"
  by (simp add: undefined_column_def columns_def schema_columns_def OrganizationRoleColumns_def)

lemma columns_sqlUpdate:
  "undefined_column d [''rank'', ''updated_at'', ''id'', ''organization_id'', ''head'',
      ''name'', ''description'', ''color'', ''created_at'']
   = (if ''description'' \<in> set (added_columns d) then None else Some ''description'')"
  by (simp add: undefined_column_def columns_def schema_columns_def)

lemma find_ID_distinct:
  "distinct (map ID rows) \<Longrightarrow> r \<in> set rows \<Longrightarrow> find (\<lambda>x. ID x = ID r) rows = Some r"
  by (induction rows) auto

lemma find_ID_None: "find (\<lambda>x. ID x = k) rows = None \<longleftrightarrow> k \<notin> set (map ID rows)"
  by (induction rows) auto

lemma ID_shift_down: "ID (shift_down now del r) = ID r"
  by (simp add: shift_down_def)

lemma find_map_ID:
  assumes "\<And>r. ID (f r) = ID r"
  shows "find (\<lambda>x. ID x = k) (map f rows) = map_option f (find (\<lambda>x. ID x = k) rows)"
  using assms by (induction rows) auto

lemma find_filter_other:
  "k \<noteq> roleID \<Longrightarrow> find (\<lambda>x. ID x = k) (filter (\<lambda>r. ID r \<noteq> roleID) rows) = find (\<lambda>x. ID x = k) rows"
  by (induction rows) auto

lemma map_ID_filter: "map ID (filter (\<lambda>r. ID r \<noteq> roleID) rows) = filter (\<lambda>k. k \<noteq> roleID) (map ID rows)"
  by (induction rows) auto

lemma ID_bump: "ID (bump now org rk r) = ID r"
  by (simp add: bump_def)

lemma find_append_fresh:
  "k \<in> set (map ID rows) \<Longrightarrow> find (\<lambda>x. ID x = k) (rows @ ys) = find (\<lambda>x. ID x = k) rows"
  by (induction rows) auto

lemma find_append_new:
  "k \<notin> set (map ID rows) \<Longrightarrow> find (\<lambda>x. ID x = k) (rows @ ys) = find (\<lambda>x. ID x = k) ys"
  by (induction rows) auto

section \<open>Insert\<close>

text \<open>
  On the table as the schema creates it, with no column \<open>description\<close>, every call of
  \<open>Insert\<close> fails with the undefined column and writes nothing, whatever the rank.
\<close>

lemma Insert_undefined_column:
  "''description'' \<notin> set (added_columns d)
     \<Longrightarrow> Insert newID now data d = (Inl (UndefinedColumn ''description''), d)"
  by (simp add: Insert_def relation_organization_roles columns_Insert)

text \<open>
  C2, as the code has it. \<open>Insert\<close> does not compare the desired rank with the number
  of roles. On a table that has the column \<open>description\<close>, which the statement names:
  whenever the store accepts the row (the rank fits the column, the organization
  exists, the id is new, the name is free and no second head role arises), the call
  succeeds for every rank. It returns the new role at exactly the rank asked for, and
  every role of the organization at that rank or above has moved up by one and every
  other role is as it was; a rank above the count is stored as it is, not clamped and
  not refused. On a table without that column the call fails with the store's
  undefined-column error, for every rank alike, and writes nothing.
\<close>

theorem Insert_any_rank:
  assumes pk: "distinct (map ID (organization_roles d))"
    and range: "Rank data \<le> int4_max"
      "\<forall>r \<in> set (organization_roles d).
         OrganizationID r = OrganizationID data \<and> Rank data \<le> Rank r \<longrightarrow> Rank r < int4_max"
    and fk: "OrganizationID data \<in> set (organizations d)"
    and fresh: "newID \<notin> set (map ID (organization_roles d))"
    and name: "\<forall>r \<in> set (organization_roles d).
         OrganizationID r = OrganizationID data \<longrightarrow> Name r \<noteq> Name data"
    and head: "Head data \<longrightarrow>
         (\<forall>r \<in> set (organization_roles d). OrganizationID r = OrganizationID data \<longrightarrow> \<not> Head r)"
  shows "if ''description'' \<in> set (added_columns d)
     then (\<exists>inserted d'. Insert newID now data d = (Inr inserted, d')
       \<and> ID inserted = newID \<and> Rank inserted = Rank data
       \<and> OrganizationID inserted = OrganizationID data
       \<and> organizations d' = organizations d
       \<and> added_columns d' = added_columns d
       \<and> map ID (organization_roles d') = map ID (organization_roles d) @ [newID]
       \<and> find (\<lambda>x. ID x = newID) (organization_roles d') = Some inserted
       \<and> (\<forall>r \<in> set (organization_roles d).
             find (\<lambda>x. ID x = ID r) (organization_roles d') =
               Some (if OrganizationID r = OrganizationID data \<and> Rank data \<le> Rank r
                     then r\<lparr>Rank := Rank r + 1, UpdatedAt := now\<rparr> else r)))
     else Insert newID now data d = (Inl (UndefinedColumn ''description''), d)"
proof (cases "''description'' \<in> set (added_columns d)")
  case False
  then show ?thesis
    by (simp add: Insert_def relation_organization_roles columns_Insert)
next
  case True
  let ?rows = "organization_roles d"
  let ?ins = "\<lparr>OrganizationID = OrganizationID data, Head = Head data, Rank = Rank data,
     Name = Name data, Description = Description data, Color = Color data,
     ID = newID, CreatedAt = now, UpdatedAt = now\<rparr>"
  let ?bumped = "map (bump now (OrganizationID data) (Rank data)) ?rows"
  have no_overflow: "\<not> (int4_max < Rank data
       \<or> (\<exists>r \<in> set ?rows. OrganizationID r = OrganizationID data \<and> Rank data \<le> Rank r
              \<and> int4_max < Rank r + 1))"
    using range by (auto simp: not_less)
  have no_name: "\<not> (\<exists>r \<in> set ?rows. OrganizationID r = OrganizationID data \<and> Name r = Name data)"
    using name by blast
  have no_head: "\<not> (Head data \<and> (\<exists>r \<in> set ?rows. OrganizationID r = OrganizationID data \<and> Head r))"
    using head by blast
  have cols: "undefined_column d [''rank'', ''updated_at'', ''organization_id'', ''head'', ''name'',
      ''description'', ''color'', ''id'', ''created_at''] = None"
    using True by (simp add: columns_Insert)
  have run: "Insert newID now data d = (Inr ?ins, d\<lparr>organization_roles := ?bumped @ [?ins]\<rparr>)"
    unfolding Insert_def relation_organization_roles cols Let_def option.case
    using no_overflow fk fresh no_name no_head by simp
  have ids: "map ID (?bumped @ [?ins]) = map ID ?rows @ [newID]"
    by (simp add: ID_bump comp_def)
  have ids_b: "map ID ?bumped = map ID ?rows"
    by (simp add: ID_bump comp_def)
  have "newID \<notin> set (map ID ?bumped)"
    using fresh unfolding ids_b .
  from find_append_new [OF this]
  have new: "find (\<lambda>x. ID x = newID) (?bumped @ [?ins]) = Some ?ins"
    by simp
  have each: "find (\<lambda>x. ID x = ID r) (?bumped @ [?ins]) =
        Some (if OrganizationID r = OrganizationID data \<and> Rank data \<le> Rank r
              then r\<lparr>Rank := Rank r + 1, UpdatedAt := now\<rparr> else r)"
    if r: "r \<in> set ?rows" for r
  proof -
    have "ID r \<in> set (map ID ?bumped)"
      using r unfolding ids_b by simp
    then have "find (\<lambda>x. ID x = ID r) (?bumped @ [?ins]) = find (\<lambda>x. ID x = ID r) ?bumped"
      by (rule find_append_fresh)
    also have "\<dots> = map_option (bump now (OrganizationID data) (Rank data)) (find (\<lambda>x. ID x = ID r) ?rows)"
      by (rule find_map_ID) (rule ID_bump)
    also have "\<dots> = Some (bump now (OrganizationID data) (Rank data) r)"
      using find_ID_distinct [OF pk r] by simp
    finally show ?thesis by (simp add: bump_def)
  qed
  show ?thesis
    using True run ids new each by simp
qed

theorem Insert_any_rank_witness:
  "(\<exists>inserted d'. Insert 30 5 role_E db_ABCD = (Inr inserted, d')
     \<and> Rank inserted = 7
     \<and> map Rank (organization_roles d') = [0, 1, 2, 3, 0, 7])
   \<and> Insert 30 5 role_E db_schema = (Inl (UndefinedColumn ''description''), db_schema)"
proof -
  have desc: "''description'' \<in> set (added_columns db_ABCD)"
    by (simp add: db_ABCD_def)
  have rows: "organization_roles db_schema = organization_roles db_ABCD"
      "organizations db_schema = organizations db_ABCD"
      "''description'' \<notin> set (added_columns db_schema)"
    by (simp_all add: db_schema_def db_ABCD_def)
  have pk: "distinct (map ID (organization_roles db_ABCD))"
    by (simp add: db_ABCD_def role_A_def role_B_def role_C_def role_D_def role_H_def)
  have range: "Rank role_E \<le> int4_max"
      "\<forall>r \<in> set (organization_roles db_ABCD).
         OrganizationID r = OrganizationID role_E \<and> Rank role_E \<le> Rank r \<longrightarrow> Rank r < int4_max"
    by (simp_all add: db_ABCD_def role_A_def role_B_def role_C_def role_D_def role_H_def role_E_def int4_max_def)
  have fk: "OrganizationID role_E \<in> set (organizations db_ABCD)"
    by (simp add: db_ABCD_def role_E_def)
  have fresh: "30 \<notin> set (map ID (organization_roles db_ABCD))"
    by (simp add: db_ABCD_def role_A_def role_B_def role_C_def role_D_def role_H_def)
  have name: "\<forall>r \<in> set (organization_roles db_ABCD).
         OrganizationID r = OrganizationID role_E \<longrightarrow> Name r \<noteq> Name role_E"
    by (simp add: db_ABCD_def role_A_def role_B_def role_C_def role_D_def role_H_def role_E_def)
  have head: "Head role_E \<longrightarrow>
         (\<forall>r \<in> set (organization_roles db_ABCD). OrganizationID r = OrganizationID role_E \<longrightarrow> \<not> Head r)"
    by (simp add: role_E_def)
  from Insert_any_rank [OF pk range fk fresh name head, of 5] desc
  obtain inserted d' where run: "Insert 30 5 role_E db_ABCD = (Inr inserted, d')"
    and rk: "Rank inserted = Rank role_E" by auto
  from run have "map Rank (organization_roles d') = [0, 1, 2, 3, 0, 7]"
    by (auto simp add: Insert_def Let_def relation_organization_roles columns_Insert bump_def
        int4_max_def db_ABCD_def role_A_def role_B_def role_C_def role_D_def role_H_def role_E_def)
  with run rk have 1: "\<exists>inserted d'. Insert 30 5 role_E db_ABCD = (Inr inserted, d')
     \<and> Rank inserted = 7 \<and> map Rank (organization_roles d') = [0, 1, 2, 3, 0, 7]"
    by (simp add: role_E_def)
  from Insert_any_rank [of db_schema role_E 30 5] pk range fk fresh name head rows
  have 2: "Insert 30 5 role_E db_schema = (Inl (UndefinedColumn ''description''), db_schema)"
    by simp
  from 1 2 show ?thesis by simp
qed

text \<open>
  The organization 1 holds four roles on a table that has the column \<open>description\<close>, and
  \<open>Insert\<close> with rank 7 returns no error and stores the role at rank 7.
\<close>

theorem Insert_out_of_range_counterexample:
  "length (filter (\<lambda>r. OrganizationID r = 1) (organization_roles db_ABCD)) = 4 \<and>
   added_columns db_ABCD = [''description''] \<and>
   Rank role_E = 7 \<and>
   Insert 30 5 role_E db_ABCD =
     (Inr \<lparr>OrganizationID = 1, Head = False, Rank = 7, Name = ''E'', Description = [],
        Color = [], ID = 30, CreatedAt = 5, UpdatedAt = 5\<rparr>,
      \<lparr>organizations = [1, 2], added_columns = [''description''],
         organization_roles = [role_A, role_B, role_C, role_D, role_H,
         \<lparr>OrganizationID = 1, Head = False, Rank = 7, Name = ''E'', Description = [],
            Color = [], ID = 30, CreatedAt = 5, UpdatedAt = 5\<rparr>]\<rparr>)"
  by (simp add: Insert_def Let_def relation_organization_roles columns_Insert bump_def int4_max_def
        db_ABCD_def role_A_def role_B_def role_C_def role_D_def role_H_def role_E_def)

section \<open>DeleteAndShiftRanks\<close>

text \<open>
  C8, as the code has it. For every role that is not a head role,
  \<open>DeleteAndShiftRanks\<close> succeeds, removes exactly that role, and every remaining role
  of the same organization with a greater rank has its rank decremented by exactly one
  (and its \<open>updated_at\<close> set); every other role is as it was. Deleting the rank-2 role
  of A@0, B@1, C@2, D@3 leaves A@0, B@1, D@2. For every head role the trigger rejects
  the delete: the call returns the error and the database is as it was.
\<close>

theorem DeleteAndShiftRanks_shifts:
  assumes pk: "distinct (map ID (organization_roles d))"
    and del: "del \<in> set (organization_roles d)" "ID del = roleID"
  shows "if Head del
     then DeleteAndShiftRanks now roleID d = (Some (RaiseException ''cannot delete head role''), d)
     else (\<exists>d'. DeleteAndShiftRanks now roleID d = (None, d')
       \<and> organizations d' = organizations d
       \<and> added_columns d' = added_columns d
       \<and> map ID (organization_roles d') = filter (\<lambda>k. k \<noteq> roleID) (map ID (organization_roles d))
       \<and> (\<forall>r \<in> set (organization_roles d). ID r \<noteq> roleID \<longrightarrow>
             find (\<lambda>x. ID x = ID r) (organization_roles d') =
               Some (if OrganizationID r = OrganizationID del \<and> Rank del < Rank r
                     then r\<lparr>Rank := Rank r - 1, UpdatedAt := now\<rparr> else r)))"
proof (cases "Head del")
  case True
  have f: "find (\<lambda>r. ID r = roleID) (organization_roles d) = Some del"
    using find_ID_distinct [OF pk del(1)] del(2) by simp
  show ?thesis
    using True by (simp add: DeleteAndShiftRanks_def relation_organization_roles columns_Delete f)
next
  case nohead: False
  let ?rows = "organization_roles d"
  let ?rows' = "map (shift_down now del) (filter (\<lambda>r. ID r \<noteq> roleID) ?rows)"
  have f: "find (\<lambda>r. ID r = roleID) ?rows = Some del"
    using find_ID_distinct [OF pk del(1)] del(2) by simp
  have run: "DeleteAndShiftRanks now roleID d = (None, d\<lparr>organization_roles := ?rows'\<rparr>)"
    by (simp add: DeleteAndShiftRanks_def relation_organization_roles columns_Delete f nohead)
  have ids: "map ID ?rows' = filter (\<lambda>k. k \<noteq> roleID) (map ID ?rows)"
    by (simp add: ID_shift_down map_ID_filter comp_def)
  have each: "find (\<lambda>x. ID x = ID r) ?rows' =
        Some (if OrganizationID r = OrganizationID del \<and> Rank del < Rank r
              then r\<lparr>Rank := Rank r - 1, UpdatedAt := now\<rparr> else r)"
    if "r \<in> set ?rows" "ID r \<noteq> roleID" for r
  proof -
    have "find (\<lambda>x. ID x = ID r) ?rows' =
          map_option (shift_down now del) (find (\<lambda>x. ID x = ID r) (filter (\<lambda>r. ID r \<noteq> roleID) ?rows))"
      by (rule find_map_ID) (rule ID_shift_down)
    also have "\<dots> = map_option (shift_down now del) (find (\<lambda>x. ID x = ID r) ?rows)"
      using that(2) by (simp add: find_filter_other)
    also have "\<dots> = Some (shift_down now del r)"
      using find_ID_distinct [OF pk that(1)] by simp
    finally show ?thesis by (simp add: shift_down_def)
  qed
  show ?thesis
    using nohead run ids each by simp
qed

theorem DeleteAndShiftRanks_shifts_witness:
  "DeleteAndShiftRanks 5 12 db_ABCD =
     (None, \<lparr>organizations = [1, 2], added_columns = [''description''],
        organization_roles = [role_A, role_B, role_D\<lparr>Rank := 2, UpdatedAt := 5\<rparr>, role_H]\<rparr>)
   \<and> DeleteAndShiftRanks 5 20 db_ABCD = (Some (RaiseException ''cannot delete head role''), db_ABCD)
   \<and> DeleteAndShiftRanks 5 12 db_schema =
     (None, \<lparr>organizations = [1, 2], added_columns = [],
        organization_roles = [role_A, role_B, role_D\<lparr>Rank := 2, UpdatedAt := 5\<rparr>, role_H]\<rparr>)"
proof -
  have pk: "distinct (map ID (organization_roles db_ABCD))"
    by (simp add: db_ABCD_def role_A_def role_B_def role_C_def role_D_def role_H_def)
  have pk': "distinct (map ID (organization_roles db_schema))"
    by (simp add: db_schema_def role_A_def role_B_def role_C_def role_D_def role_H_def)
  have del: "role_C \<in> set (organization_roles db_ABCD)" "ID role_C = 12"
    by (simp_all add: db_ABCD_def role_C_def)
  have del': "role_C \<in> set (organization_roles db_schema)"
    by (simp add: db_schema_def)
  have nohead: "\<not> Head role_C"
    by (simp add: role_C_def)
  have hd: "role_H \<in> set (organization_roles db_ABCD)" "ID role_H = 20" "Head role_H"
    by (simp_all add: db_ABCD_def role_H_def)
  from DeleteAndShiftRanks_shifts [OF pk del, of 5] nohead
  obtain d' where "DeleteAndShiftRanks 5 12 db_ABCD = (None, d')" by auto
  then have 1: "DeleteAndShiftRanks 5 12 db_ABCD =
     (None, \<lparr>organizations = [1, 2], added_columns = [''description''],
        organization_roles = [role_A, role_B, role_D\<lparr>Rank := 2, UpdatedAt := 5\<rparr>, role_H]\<rparr>)"
    by (simp add: DeleteAndShiftRanks_def relation_organization_roles columns_Delete shift_down_def
        db_ABCD_def role_A_def role_B_def role_C_def role_D_def role_H_def)
  from DeleteAndShiftRanks_shifts [OF pk hd(1,2), of 5] hd(3)
  have 2: "DeleteAndShiftRanks 5 20 db_ABCD = (Some (RaiseException ''cannot delete head role''), db_ABCD)"
    by simp
  from DeleteAndShiftRanks_shifts [OF pk' del' del(2), of 5] nohead
  obtain d'' where "DeleteAndShiftRanks 5 12 db_schema = (None, d'')" by auto
  then have 3: "DeleteAndShiftRanks 5 12 db_schema =
     (None, \<lparr>organizations = [1, 2], added_columns = [],
        organization_roles = [role_A, role_B, role_D\<lparr>Rank := 2, UpdatedAt := 5\<rparr>, role_H]\<rparr>)"
    by (simp add: DeleteAndShiftRanks_def relation_organization_roles columns_Delete shift_down_def
        db_schema_def role_A_def role_B_def role_C_def role_D_def role_H_def)
  from 1 2 3 show ?thesis by simp
qed

text \<open>
  For a head role the trigger rejects the delete: the call returns the error and the
  table is as it was.
\<close>

theorem DeleteAndShiftRanks_head_counterexample:
  "role_H \<in> set (organization_roles db_ABCD) \<and>
   DeleteAndShiftRanks 5 (ID role_H) db_ABCD = (Some (RaiseException ''cannot delete head role''), db_ABCD)"
  by (simp add: DeleteAndShiftRanks_def relation_organization_roles columns_Delete db_ABCD_def
        role_A_def role_B_def role_C_def role_D_def role_H_def)

section \<open>UpdateRoleRank\<close>

text \<open>
  \<open>sqlGet\<close> names the relation \<open>roles\<close>, which does not exist, so \<open>UpdateRoleRank\<close>
  returns the error of its first statement and writes nothing, whatever the role and the
  rank.
\<close>

lemma UpdateRoleRank_undefined_table:
  "UpdateRoleRank now roleID newRank d = (Inl (UndefinedTable ''roles''), d)"
  by (simp add: UpdateRoleRank_def sqlGet_def relation_roles)

text \<open>
  C6 at A@0, B@1, C@2, D@3 and the move of A to rank 2: no rank is changed and the call
  returns an error.
\<close>

theorem UpdateRoleRank_move_fails:
  "UpdateRoleRank 5 (ID role_A) 2 db_ABCD = (Inl (UndefinedTable ''roles''), db_ABCD)"
  by (simp add: UpdateRoleRank_def sqlGet_def relation_roles)

text \<open>
  C7 at the same table and the move of B to its own rank 1: the call returns an error,
  not the role; nothing is written.
\<close>

theorem UpdateRoleRank_noop_fails:
  "FilterByID_Get (ID role_B) db_ABCD = Inr role_B \<and> Rank role_B = 1 \<and>
   UpdateRoleRank 5 (ID role_B) 1 db_ABCD = (Inl (UndefinedTable ''roles''), db_ABCD)"
  by (simp add: UpdateRoleRank_def sqlGet_def relation_roles FilterByID_Get_def
       relation_OrganizationRoleTable columns_Select db_ABCD_def role_A_def role_B_def)

section \<open>UpdateRolesRanks\<close>












section \<open>The profiles consumer\<close>

text \<open>
  C9. A message whose \<open>event_type\<close> header is absent, or names a type that is none of
  the contract's event types, gets no handler (the function answers \<open>nil, false\<close>), and
  the consumer skips it: no error, no change. A handler is selected exactly for
  \<open>profile.updated\<close>, which is one of the contract's event types.
\<close>

theorem Run_handler_unknown_skipped:
  "ProfileUpdatedEvent \<in> set contract_event_types \<and>
   ((\<not> snd (Header m ''event_type'') \<or> fst (Header m ''event_type'') \<notin> set contract_event_types)
      \<longrightarrow> Run_handler Header inbox processor m = (None, False)
        \<and> Consume_message (Run_handler Header inbox processor) m s = (None, s)) \<and>
   (Run_handler Header inbox processor m =
      (if snd (Header m ''event_type'') \<and> fst (Header m ''event_type'') = ProfileUpdatedEvent
       then (Some (ProfileUpdated inbox processor), True) else (None, False)))"
  by (auto simp: Run_handler_def Consume_message_def contract_event_types_def split: prod.splits)

theorem Run_handler_unknown_skipped_witness:
  "Run_handler first_header (gateway (\<lambda>m. 7)) (upsert_profile ''p'') msg_unknown = (None, False) \<and>
   Consume_message (Run_handler first_header (gateway (\<lambda>m. 7)) (upsert_profile ''p'')) msg_unknown empty_store
     = (None, empty_store) \<and>
   Run_handler first_header (gateway (\<lambda>m. 7)) (upsert_profile ''p'') msg_profile
     = (Some (ProfileUpdated (gateway (\<lambda>m. 7)) (upsert_profile ''p'')), True)"
proof -
  have u: "\<not> snd (first_header msg_unknown ''event_type'')
      \<or> fst (first_header msg_unknown ''event_type'') \<notin> set contract_event_types"
    by (simp add: first_header_def msg_unknown_def contract_event_types_def ProfileUpdatedEvent_def)
  have p: "snd (first_header msg_profile ''event_type'')
      \<and> fst (first_header msg_profile ''event_type'') = ProfileUpdatedEvent"
    by (simp add: first_header_def msg_profile_def ProfileUpdatedEvent_def)
  from Run_handler_unknown_skipped [of first_header msg_unknown "gateway (\<lambda>m. 7)" "upsert_profile ''p''" empty_store] u
  have 1: "Run_handler first_header (gateway (\<lambda>m. 7)) (upsert_profile ''p'') msg_unknown = (None, False)"
    and 2: "Consume_message (Run_handler first_header (gateway (\<lambda>m. 7)) (upsert_profile ''p'')) msg_unknown empty_store
     = (None, empty_store)"
    by blast+
  from Run_handler_unknown_skipped [of first_header msg_profile "gateway (\<lambda>m. 7)" "upsert_profile ''p''" empty_store] p
  have 3: "Run_handler first_header (gateway (\<lambda>m. 7)) (upsert_profile ''p'') msg_profile
     = (Some (ProfileUpdated (gateway (\<lambda>m. 7)) (upsert_profile ''p'')), True)"
    by simp
  from 1 2 3 show ?thesis by simp
qed

text \<open>
  C3 at an inbox whose status update returns an error: \<open>ProfileUpdated\<close> returns nil,
  the transaction commits, the profile is written and the inbox row is still
  \<open>pending\<close>.
\<close>

theorem ProfileUpdated_commits_pending:
  "ProfileUpdated (gateway_update_fails (\<lambda>m. 7)) (upsert_profile ''p'') msg_profile empty_store =
     (None, \<lparr>inbox_events = [\<lparr>EventID = 7, EventKey = ''acc-1'', Status = ''pending''\<rparr>],
              profiles = [(''acc-1'', ''p'')]\<rparr>)"
  by (simp add: ProfileUpdated_def gateway_update_fails_def gateway_def run_transaction_def
       RecordEvent_def upsert_profile_def msg_profile_def empty_store_def Let_def)

text \<open>With the gateway of the spec the update cannot fail, and the commit carries the
  processor's status.\<close>

lemma find_EventID_append:
  "find (\<lambda>e. EventID e = k) xs = None \<Longrightarrow> find (\<lambda>e. EventID e = k) (xs @ [y]) = (if EventID y = k then Some y else None)"
  by (induction xs) (auto split: if_splits)

lemma find_status_map:
  "find (\<lambda>e. EventID e = k) (map (\<lambda>x. if EventID x = k then x\<lparr>Status := st\<rparr> else x) xs)
     = map_option (\<lambda>e. e\<lparr>Status := st\<rparr>) (find (\<lambda>e. EventID e = k) xs)"
  by (induction xs) auto


lemma find_EventID_Some: "find (\<lambda>e. EventID e = k) xs = Some e \<Longrightarrow> EventID e = k"
  by (induction xs) (auto split: if_splits)

lemma RecordEvent_recorded:
  assumes "RecordEvent ident m s = (r, s1)"
  shows "\<exists>e. r = Inr e \<and> EventID e = ident m
           \<and> find (\<lambda>x. EventID x = ident m) (inbox_events s1) = Some e"
proof (cases "find (\<lambda>e. EventID e = ident m) (inbox_events s)")
  case None
  with assms show ?thesis
    by (auto simp: RecordEvent_def Let_def find_EventID_append)
next
  case (Some e)
  with assms have "r = Inr e" "s1 = s"
    by (simp_all add: RecordEvent_def)
  with Some find_EventID_Some [OF Some] show ?thesis by simp
qed

lemma UpdateStatus_written:
  assumes "find (\<lambda>x. EventID x = k) (inbox_events s) = Some e"
  shows "\<exists>s'. UpdateStatus k st s = (Inr (e\<lparr>Status := st\<rparr>), s')
           \<and> find (\<lambda>x. EventID x = k) (inbox_events s') = Some (e\<lparr>Status := st\<rparr>)
           \<and> profiles s' = profiles s"
  using assms by (simp add: UpdateStatus_def find_status_map)

lemma ProfileUpdated_gateway_status:
  assumes keep: "\<And>e s. inbox_events (snd (processor e s)) = inbox_events s"
    and rec: "RecordEvent ident m s = (Inr e, s1)"
  shows "\<exists>s' e'. ProfileUpdated (gateway ident) processor m s = (None, s')
     \<and> find (\<lambda>x. EventID x = ident m) (inbox_events s') = Some e'
     \<and> Status e' = fst (processor e s1)
     \<and> profiles s' = profiles (snd (processor e s1))"
proof -
  obtain st s2 where p: "processor e s1 = (st, s2)" by (cases "processor e s1")
  from RecordEvent_recorded [OF rec]
  have id: "EventID e = ident m" and f1: "find (\<lambda>x. EventID x = ident m) (inbox_events s1) = Some e"
    by auto
  have "inbox_events s2 = inbox_events s1" using keep [of e s1] p by simp
  with f1 have f2: "find (\<lambda>x. EventID x = ident m) (inbox_events s2) = Some e" by simp
  from UpdateStatus_written [OF f2, of st]
  obtain s3 where u: "UpdateStatus (ident m) st s2 = (Inr (e\<lparr>Status := st\<rparr>), s3)"
    and f3: "find (\<lambda>x. EventID x = ident m) (inbox_events s3) = Some (e\<lparr>Status := st\<rparr>)"
    and pr: "profiles s3 = profiles s2" by blast
  have "ProfileUpdated (gateway ident) processor m s = (None, s3)"
    by (simp add: ProfileUpdated_def gateway_def run_transaction_def rec p id u)
  with f3 pr p show ?thesis by simp
qed

end
